theory Spec2Isabelle
  imports Main "HOL-Library.AList"
begin

section \<open>Data model\<close>

text \<open>
  The backend (the Hono application of the edge function) keeps every entity as a JSON
  record in one key-value table. The records are modelled with the fields the handlers
  write; the field names are the source's names behind a prefix for the entity.
  A field that the source may set to \<^verbatim>\<open>null\<close> is an \<open>option\<close>.
  Counters are \<open>int\<close>. The field \<^verbatim>\<open>expiresAt\<close> is stored as the ISO text of an
  instant and only ever read through \<^verbatim>\<open>new Date(...)\<close>; the model keeps the instant
  itself, in milliseconds since the epoch.
\<close>

record user =
  user_id :: string
  user_email :: string
  user_name :: string
  user_role :: string
  user_orgId :: "string option"
  user_createdAt :: string

record organization =
  org_id :: string
  org_name :: string
  org_createdAt :: string
  org_createdBy :: string

record project =
  project_id :: string
  project_name :: string
  project_description :: string
  project_orgId :: "string option"
  project_assignedUsers :: "string list"
  project_createdAt :: string
  project_createdBy :: string

record timesheet =
  ts_id :: string
  ts_userId :: string
  ts_projectId :: string
  ts_taskName :: string
  ts_startTime :: string
  ts_endTime :: string
  ts_duration :: int
  ts_notes :: string
  ts_beforePhotoUrl :: "string option"
  ts_afterPhotoUrl :: "string option"
  ts_createdAt :: string

record invite_code =
  ic_id :: string
  ic_code :: string
  ic_orgId :: "string option"
  ic_createdBy :: string
  ic_createdAt :: string
  ic_expiresAt :: "int option"
  ic_maxUses :: "int option"
  ic_currentUses :: int
  ic_isActive :: bool

text \<open>
  What a key of the table can hold: an entity record, a list of ids (the hand-maintained
  indexes), a single id (\<^verbatim>\<open>user-org:{userId}\<close>), or the probe object of the
  \<^verbatim>\<open>test-database\<close> route.
\<close>

datatype kv_value =
    VUser user
  | VOrg organization
  | VProject project
  | VTimesheet timesheet
  | VInvite invite_code
  | VIds "string list"
  | VStr string
  | VProbe string int

section \<open>The key-value store adapter\<close>

text \<open>
  Modelled from the spec: the module \<^verbatim>\<open>kv_store.tsx\<close> that the handlers import as
  \<^verbatim>\<open>kv\<close> is not among the sources. The spec describes it as generic
  get/set/delete/prefix-scan/multi-get operations over string keys, with no schema and
  no transactions. The table is a list of rows with one row per key: \<open>kv_set\<close>
  overwrites the row of the key or adds a row, \<open>kv_del\<close> removes it, \<open>kv_get\<close>
  yields \<open>None\<close> for a key without a row, \<open>kv_getByPrefix\<close> yields the values of
  the rows whose key starts with the prefix, and \<open>kv_mget\<close> yields the values found
  for the keys asked for. The store never fails.
\<close>

type_synonym store = "(string \<times> kv_value) list"

definition kv_get :: "store \<Rightarrow> string \<Rightarrow> kv_value option" where
  "kv_get s k = map_of s k"

definition kv_set :: "string \<Rightarrow> kv_value \<Rightarrow> store \<Rightarrow> store" where
  "kv_set k v s = AList.update k v s"

definition kv_del :: "string \<Rightarrow> store \<Rightarrow> store" where
  "kv_del k s = AList.delete k s"

definition starts_with :: "string \<Rightarrow> string \<Rightarrow> bool" where
  "starts_with p k = (take (length p) k = p)"

definition kv_getByPrefix :: "store \<Rightarrow> string \<Rightarrow> kv_value list" where
  "kv_getByPrefix s p = map snd (filter (\<lambda>row. starts_with p (fst row)) s)"

definition kv_mget :: "store \<Rightarrow> string list \<Rightarrow> kv_value list" where
  "kv_mget s ks = List.map_filter (kv_get s) ks"

subsection \<open>Reading a value as the handlers use it\<close>

text \<open>
  The handlers read a key and use the value as the kind of record they wrote under that
  key prefix. A key without a row gives \<^verbatim>\<open>undefined\<close>, here \<open>None\<close>; a value of
  another kind under the key (which no handler writes) is read as \<open>None\<close> too.
  \<open>get_ids\<close> is the idiom \<^verbatim>\<open>await kv.get(key) || []\<close>.
\<close>

definition get_user :: "store \<Rightarrow> string \<Rightarrow> user option" where
  "get_user s uid =
     (case kv_get s (''users:'' @ uid) of Some (VUser u) \<Rightarrow> Some u | _ \<Rightarrow> None)"

definition get_invite :: "store \<Rightarrow> string \<Rightarrow> invite_code option" where
  "get_invite s cid =
     (case kv_get s (''invite-codes:'' @ cid) of Some (VInvite c) \<Rightarrow> Some c | _ \<Rightarrow> None)"

definition get_project :: "store \<Rightarrow> string \<Rightarrow> project option" where
  "get_project s pid =
     (case kv_get s (''projects:'' @ pid) of Some (VProject p) \<Rightarrow> Some p | _ \<Rightarrow> None)"

definition get_timesheet :: "store \<Rightarrow> string \<Rightarrow> timesheet option" where
  "get_timesheet s tid =
     (case kv_get s (''timesheets:'' @ tid) of Some (VTimesheet t) \<Rightarrow> Some t | _ \<Rightarrow> None)"

definition get_ids :: "store \<Rightarrow> string \<Rightarrow> string list" where
  "get_ids s k = (case kv_get s k of Some (VIds ids) \<Rightarrow> ids | _ \<Rightarrow> [])"

subsection \<open>JavaScript idioms\<close>

text \<open>
  Truthiness of a nullable string (\<^verbatim>\<open>null\<close>, \<^verbatim>\<open>undefined\<close> and the empty string
  are falsy) and of a nullable number (\<^verbatim>\<open>null\<close> and \<open>0\<close> are falsy), and the text
  a template literal gives for a nullable string.
\<close>

fun truthy_str :: "string option \<Rightarrow> bool" where
  "truthy_str None = False"
| "truthy_str (Some x) = (x \<noteq> [])"

fun truthy_num :: "int option \<Rightarrow> bool" where
  "truthy_num None = False"
| "truthy_num (Some n) = (n \<noteq> 0)"

fun tmpl :: "string option \<Rightarrow> string" where
  "tmpl None = ''null''"
| "tmpl (Some x) = x"

section \<open>Requests, responses, environment\<close>

text \<open>
  A response is the JSON body with its status. \<open>Error st msg\<close> is
  \<^verbatim>\<open>c.json({ error: msg }, st)\<close>; the other constructors are the bodies sent with
  status 200. The caller of a protected route is the result of \<^verbatim>\<open>verifyUser\<close>: the
  id of the user the identity provider resolves the bearer token to, or \<open>None\<close>.
\<close>

datatype response =
    Error nat string
  | Json_list "kv_value list"
  | Success
  | Success_msg string
  | Success_with kv_value
  | Signup_ok string "string option"
  | Probe_log bool

text \<open>
  What a handler takes from outside the store: the clock (as an instant, as ISO text and
  as the decimal text of \<^verbatim>\<open>Date.now()\<close>), the text
  \<^verbatim>\<open>${Date.now()}_${Math.random().toString(36).substr(2, 9)}\<close> of a generated id, the
  eight random characters of a new invite code, and the message of the TypeError that
  reading a property of \<^verbatim>\<open>undefined\<close> throws. \<open>date_plus_days d\<close> is the
  instant that \<^verbatim>\<open>expiry.setDate(expiry.getDate() + d)\<close> moves the clock to, in the
  time zone of the server; it is \<open>None\<close> when that leaves the range of
  \<^verbatim>\<open>Date\<close>, where \<^verbatim>\<open>toISOString()\<close> throws a RangeError with the message
  \<open>range_error\<close>.
\<close>

record env =
  now_ms :: int
  now_iso :: string
  now_text :: string
  gen_suffix :: string
  rand_code :: string
  type_error :: string
  date_plus_days :: "int \<Rightarrow> int option"
  range_error :: string

text \<open>
  The body of an update request is spread over the stored record
  (\<^verbatim>\<open>{...stored, ...updates}\<close>): a field the body has replaces the stored one.
  A body is modelled with the fields of the record it updates, each of them optional;
  fields of other names, which the source would store as well, are outside the model.
\<close>

record user_updates =
  upd_user_id :: "string option"
  upd_user_email :: "string option"
  upd_user_name :: "string option"
  upd_user_role :: "string option"
  upd_user_orgId :: "string option option"
  upd_user_createdAt :: "string option"

definition override :: "'a \<Rightarrow> 'a option \<Rightarrow> 'a" where
  "override stored upd = (case upd of None \<Rightarrow> stored | Some x \<Rightarrow> x)"

definition spread_user :: "user \<Rightarrow> user_updates \<Rightarrow> user" where
  "spread_user u p =
     \<lparr> user_id = override (user_id u) (upd_user_id p),
       user_email = override (user_email u) (upd_user_email p),
       user_name = override (user_name u) (upd_user_name p),
       user_role = override (user_role u) (upd_user_role p),
       user_orgId = override (user_orgId u) (upd_user_orgId p),
       user_createdAt = override (user_createdAt u) (upd_user_createdAt p) \<rparr>"

section \<open>User routes\<close>

text \<open>\<^verbatim>\<open>PUT /users/:userId\<close> (admin only).\<close>

definition put_user :: "string option \<Rightarrow> string \<Rightarrow> user_updates \<Rightarrow> store \<Rightarrow> store \<times> response" where
  "put_user caller userId updates s =
     (case caller of
        None \<Rightarrow> (s, Error 401 ''Unauthorized'')
      | Some uid \<Rightarrow>
          (case get_user s uid of
             None \<Rightarrow> (s, Error 500 ''Failed to update user'')
           | Some currentUser \<Rightarrow>
               if user_role currentUser \<noteq> ''admin''
               then (s, Error 403 ''Forbidden - Admin only'')
               else
                 (case get_user s userId of
                    None \<Rightarrow> (s, Error 404 ''User not found'')
                  | Some targetUser \<Rightarrow>
                      let updatedUser = (spread_user targetUser updates)\<lparr>user_id := userId\<rparr>
                      in (kv_set (''users:'' @ userId) (VUser updatedUser) s,
                          Success_with (VUser updatedUser)))))"

text \<open>
  \<^verbatim>\<open>DELETE /users/:userId\<close> (admin only). The removal from the identity provider
  that follows the two writes does not touch the store, and its failure is only logged.
\<close>

definition delete_user :: "string option \<Rightarrow> string \<Rightarrow> store \<Rightarrow> store \<times> response" where
  "delete_user caller userId s =
     (case caller of
        None \<Rightarrow> (s, Error 401 ''Unauthorized'')
      | Some uid \<Rightarrow>
          (case get_user s uid of
             None \<Rightarrow> (s, Error 500 ''Failed to delete user'')
           | Some currentUser \<Rightarrow>
               if user_role currentUser \<noteq> ''admin''
               then (s, Error 403 ''Forbidden - Admin only'')
               else if userId = uid
               then (s, Error 400 ''Cannot delete your own account'')
               else
                 (case get_user s userId of
                    None \<Rightarrow> (s, Error 404 ''User not found'')
                  | Some targetUser \<Rightarrow>
                      let s1 = kv_del (''users:'' @ userId) s;
                          s2 = (if truthy_str (user_orgId targetUser)
                                then let orgUsersKey = ''orgs:'' @ tmpl (user_orgId targetUser) @ '':users'';
                                         orgUsers = get_ids s1 orgUsersKey;
                                         updatedOrgUsers = filter (\<lambda>i. i \<noteq> userId) orgUsers
                                     in kv_set orgUsersKey (VIds updatedOrgUsers) s1
                                else s1)
                      in (s2, Success_msg ''User deleted successfully''))))"

section \<open>Signup\<close>

record signup_body =
  sb_email :: string
  sb_password :: string
  sb_name :: string
  sb_organizationName :: "string option"
  sb_inviteCode :: "string option"
  sb_role :: "string option"

text \<open>
  The predicate of the \<^verbatim>\<open>find\<close> over the invite codes:
  \<^verbatim>\<open>c.code === inviteCode && c.isActive &&
  (!c.expiresAt || new Date(c.expiresAt) > new Date()) &&
  (!c.maxUses || c.currentUses < c.maxUses)\<close>.
\<close>

definition code_is_valid :: "int \<Rightarrow> string \<Rightarrow> invite_code \<Rightarrow> bool" where
  "code_is_valid now inviteCode c =
     (ic_code c = inviteCode \<and> ic_isActive c \<and>
      (case ic_expiresAt c of None \<Rightarrow> True | Some t \<Rightarrow> t > now) \<and>
      (\<not> truthy_num (ic_maxUses c) \<or>
         (case ic_maxUses c of None \<Rightarrow> False | Some m \<Rightarrow> ic_currentUses c < m)))"

fun as_invite :: "kv_value \<Rightarrow> invite_code option" where
  "as_invite (VInvite c) = Some c"
| "as_invite _ = None"

text \<open>
  \<^verbatim>\<open>kv.getByPrefix('invite-codes:')\<close>; a value that is not an invite code has no
  \<^verbatim>\<open>code\<close> field and never satisfies the predicate, so it is left out.
\<close>

definition stored_invite_codes :: "store \<Rightarrow> invite_code list" where
  "stored_invite_codes s = List.map_filter as_invite (kv_getByPrefix s ''invite-codes:'')"

definition find_valid_code :: "int \<Rightarrow> string \<Rightarrow> store \<Rightarrow> invite_code option" where
  "find_valid_code now inviteCode s = find (code_is_valid now inviteCode) (stored_invite_codes s)"

text \<open>
  The block after the three branches:
  \<^verbatim>\<open>if (orgId) { set user-org:{userId}; append userId to org-users:{orgId} }\<close>.
\<close>

definition signup_index :: "string \<Rightarrow> string option \<Rightarrow> store \<Rightarrow> store" where
  "signup_index userId orgId s =
     (if truthy_str orgId
      then let s1 = kv_set (''user-org:'' @ userId) (VStr (tmpl orgId)) s;
               orgUsers = get_ids s1 (''org-users:'' @ tmpl orgId)
           in kv_set (''org-users:'' @ tmpl orgId) (VIds (orgUsers @ [userId])) s1
      else s)"

text \<open>
  \<^verbatim>\<open>POST /signup\<close> (public). \<open>created\<close> is what the identity provider answers to
  \<^verbatim>\<open>createUser\<close>: an error message or the id of the new identity.
\<close>

definition signup :: "env \<Rightarrow> string + string \<Rightarrow> signup_body \<Rightarrow> store \<Rightarrow> store \<times> response" where
  "signup e created body s =
     (case created of
        Inl msg \<Rightarrow> (s, Error 400 msg)
      | Inr userId \<Rightarrow>
          let role = (case sb_role body of None \<Rightarrow> ''staff'' | Some r \<Rightarrow> r);
              userRole = role
          in
          if truthy_str (sb_inviteCode body) then
            (case find_valid_code (now_ms e) (tmpl (sb_inviteCode body)) s of
               None \<Rightarrow> (s, Error 400 ''Invalid or expired invite code'')
             | Some validCode \<Rightarrow>
                 let orgId = ic_orgId validCode;
                     userRole = ''staff'';
                     s1 = kv_set (''invite-codes:'' @ ic_id validCode)
                            (VInvite (validCode\<lparr>ic_currentUses := ic_currentUses validCode + 1\<rparr>)) s;
                     s2 = kv_set (''users:'' @ userId)
                            (VUser \<lparr> user_id = userId, user_email = sb_email body,
                                     user_name = sb_name body, user_role = userRole,
                                     user_orgId = orgId, user_createdAt = now_iso e \<rparr>) s1
                 in (signup_index userId orgId s2, Signup_ok userId orgId))
          else if truthy_str (sb_organizationName body) then
            (let orgId = ''org_'' @ gen_suffix e;
                 s1 = kv_set (''organizations:'' @ orgId)
                        (VOrg \<lparr> org_id = orgId, org_name = tmpl (sb_organizationName body),
                                org_createdAt = now_iso e, org_createdBy = userId \<rparr>) s;
                 s2 = kv_set (''users:'' @ userId)
                        (VUser \<lparr> user_id = userId, user_email = sb_email body,
                                 user_name = sb_name body, user_role = ''admin'',
                                 user_orgId = Some orgId, user_createdAt = now_iso e \<rparr>) s1
             in (signup_index userId (Some orgId) s2, Signup_ok userId (Some orgId)))
          else
            (let s1 = kv_set (''users:'' @ userId)
                        (VUser \<lparr> user_id = userId, user_email = sb_email body,
                                 user_name = sb_name body, user_role = userRole,
                                 user_orgId = None, user_createdAt = now_iso e \<rparr>) s
             in (signup_index userId None s1, Signup_ok userId None)))"

section \<open>Invite code routes\<close>

record invite_body =
  ib_expiresInDays :: "int option"
  ib_maxUses :: "int option"

text \<open>
  The expiry of a new invite code:
  \<^verbatim>\<open>if (expiresInDays && expiresInDays > 0) { expiry.setDate(...); expiresAt =
  expiry.toISOString() }\<close>, \<^verbatim>\<open>null\<close> otherwise. \<open>Inl\<close> is the message of the
  RangeError of an expiry out of range.
\<close>

definition invite_expiry :: "env \<Rightarrow> invite_body \<Rightarrow> string + int option" where
  "invite_expiry e body =
     (case ib_expiresInDays body of
        None \<Rightarrow> Inr None
      | Some d \<Rightarrow>
          if d \<noteq> 0 \<and> d > 0
          then (case date_plus_days e d of
                  None \<Rightarrow> Inl (range_error e)
                | Some t \<Rightarrow> Inr (Some t))
          else Inr None)"

text \<open>
  \<^verbatim>\<open>POST /invite-codes\<close> (admin only). A caller without a stored profile makes
  \<^verbatim>\<open>currentUser.role\<close> throw; that and the RangeError of the expiry are answered
  with status 500 and the message of the error, before any write.
\<close>

definition post_invite_codes :: "env \<Rightarrow> string option \<Rightarrow> invite_body \<Rightarrow> store \<Rightarrow> store \<times> response" where
  "post_invite_codes e caller body s =
     (case caller of
        None \<Rightarrow> (s, Error 401 ''Unauthorized'')
      | Some uid \<Rightarrow>
          (case get_user s uid of
             None \<Rightarrow> (s, Error 500 (''Failed to create invite code: '' @ type_error e))
           | Some currentUser \<Rightarrow>
               if user_role currentUser \<noteq> ''admin''
               then (s, Error 403 ''Forbidden - Admin only'')
               else
                 (case invite_expiry e body of
                    Inl msg \<Rightarrow> (s, Error 500 (''Failed to create invite code: '' @ msg))
                  | Inr expiresAt \<Rightarrow>
                 let code = rand_code e;
                     codeId = ''code_'' @ gen_suffix e;
                     inviteCode = \<lparr> ic_id = codeId, ic_code = code,
                                    ic_orgId = user_orgId currentUser, ic_createdBy = uid,
                                    ic_createdAt = now_iso e, ic_expiresAt = expiresAt,
                                    ic_maxUses = (if truthy_num (ib_maxUses body)
                                                  then ib_maxUses body else None),
                                    ic_currentUses = 0, ic_isActive = True \<rparr>;
                     s1 = kv_set (''invite-codes:'' @ codeId) (VInvite inviteCode) s;
                     orgCodes = get_ids s1 (''org-invite-codes:'' @ tmpl (user_orgId currentUser));
                     s2 = kv_set (''org-invite-codes:'' @ tmpl (user_orgId currentUser))
                            (VIds (orgCodes @ [codeId])) s1
                 in (s2, Success_with (VInvite inviteCode)))))"

text \<open>\<^verbatim>\<open>PUT /invite-codes/:codeId/toggle\<close> (admin only).\<close>

definition toggle_invite_code :: "string option \<Rightarrow> string \<Rightarrow> store \<Rightarrow> store \<times> response" where
  "toggle_invite_code caller codeId s =
     (case caller of
        None \<Rightarrow> (s, Error 401 ''Unauthorized'')
      | Some uid \<Rightarrow>
          (case get_user s uid of
             None \<Rightarrow> (s, Error 500 ''Failed to toggle invite code'')
           | Some currentUser \<Rightarrow>
               if user_role currentUser \<noteq> ''admin''
               then (s, Error 403 ''Forbidden - Admin only'')
               else
                 (case get_invite s codeId of
                    None \<Rightarrow> (s, Error 404 ''Invite code not found'')
                  | Some inviteCode \<Rightarrow>
                      if ic_orgId inviteCode \<noteq> user_orgId currentUser
                      then (s, Error 403 ''Forbidden'')
                      else
                        let updatedCode = inviteCode\<lparr>ic_isActive := \<not> ic_isActive inviteCode\<rparr>
                        in (kv_set (''invite-codes:'' @ codeId) (VInvite updatedCode) s,
                            Success_with (VInvite updatedCode)))))"

text \<open>\<^verbatim>\<open>DELETE /invite-codes/:codeId\<close> (admin only).\<close>

definition delete_invite_code :: "string option \<Rightarrow> string \<Rightarrow> store \<Rightarrow> store \<times> response" where
  "delete_invite_code caller codeId s =
     (case caller of
        None \<Rightarrow> (s, Error 401 ''Unauthorized'')
      | Some uid \<Rightarrow>
          (case get_user s uid of
             None \<Rightarrow> (s, Error 500 ''Failed to delete invite code'')
           | Some currentUser \<Rightarrow>
               if user_role currentUser \<noteq> ''admin''
               then (s, Error 403 ''Forbidden - Admin only'')
               else
                 (case get_invite s codeId of
                    None \<Rightarrow> (s, Error 404 ''Invite code not found'')
                  | Some inviteCode \<Rightarrow>
                      if ic_orgId inviteCode \<noteq> user_orgId currentUser
                      then (s, Error 403 ''Forbidden'')
                      else
                        let s1 = kv_del (''invite-codes:'' @ codeId) s;
                            orgCodes = get_ids s1 (''org-invite-codes:'' @ tmpl (user_orgId currentUser))
                        in (kv_set (''org-invite-codes:'' @ tmpl (user_orgId currentUser))
                              (VIds (filter (\<lambda>i. i \<noteq> codeId) orgCodes)) s1,
                            Success))))"

text \<open>\<^verbatim>\<open>PUT /users/me\<close>.\<close>

definition put_users_me :: "string option \<Rightarrow> user_updates \<Rightarrow> store \<Rightarrow> store \<times> response" where
  "put_users_me caller updates s =
     (case caller of
        None \<Rightarrow> (s, Error 401 ''Unauthorized'')
      | Some uid \<Rightarrow>
          (case get_user s uid of
             None \<Rightarrow> (s, Error 404 ''User profile not found'')
           | Some currentProfile \<Rightarrow>
               let updatedProfile = (spread_user currentProfile updates)
                     \<lparr> user_id := uid,
                       user_role := user_role currentProfile,
                       user_orgId := user_orgId currentProfile \<rparr>
               in (kv_set (''users:'' @ uid) (VUser updatedProfile) s,
                   Success_with (VUser updatedProfile))))"

section \<open>Project routes\<close>

record project_body =
  pb_name :: string
  pb_description :: string
  pb_assignedUsers :: "string list option"

record project_updates =
  upd_project_id :: "string option"
  upd_project_name :: "string option"
  upd_project_description :: "string option"
  upd_project_orgId :: "string option option"
  upd_project_assignedUsers :: "string list option"
  upd_project_createdAt :: "string option"
  upd_project_createdBy :: "string option"

definition spread_project :: "project \<Rightarrow> project_updates \<Rightarrow> project" where
  "spread_project p u =
     \<lparr> project_id = override (project_id p) (upd_project_id u),
       project_name = override (project_name p) (upd_project_name u),
       project_description = override (project_description p) (upd_project_description u),
       project_orgId = override (project_orgId p) (upd_project_orgId u),
       project_assignedUsers = override (project_assignedUsers p) (upd_project_assignedUsers u),
       project_createdAt = override (project_createdAt p) (upd_project_createdAt u),
       project_createdBy = override (project_createdBy p) (upd_project_createdBy u) \<rparr>"

text \<open>\<^verbatim>\<open>POST /projects\<close> (admin only).\<close>

definition post_projects :: "env \<Rightarrow> string option \<Rightarrow> project_body \<Rightarrow> store \<Rightarrow> store \<times> response" where
  "post_projects e caller body s =
     (case caller of
        None \<Rightarrow> (s, Error 401 ''Unauthorized'')
      | Some uid \<Rightarrow>
          (case get_user s uid of
             None \<Rightarrow> (s, Error 500 ''Failed to create project'')
           | Some currentUser \<Rightarrow>
               if user_role currentUser \<noteq> ''admin''
               then (s, Error 403 ''Forbidden - Admin only'')
               else
                 let assignedUsers = (case pb_assignedUsers body of None \<Rightarrow> [] | Some us \<Rightarrow> us);
                     projectId = ''project_'' @ gen_suffix e;
                     project = \<lparr> project_id = projectId, project_name = pb_name body,
                                 project_description = pb_description body,
                                 project_orgId = user_orgId currentUser,
                                 project_assignedUsers = assignedUsers,
                                 project_createdAt = now_iso e, project_createdBy = uid \<rparr>;
                     s1 = kv_set (''projects:'' @ projectId) (VProject project) s;
                     orgProjects = get_ids s1 (''org-projects:'' @ tmpl (user_orgId currentUser))
                 in (kv_set (''org-projects:'' @ tmpl (user_orgId currentUser))
                       (VIds (orgProjects @ [projectId])) s1,
                     Success_with (VProject project))))"

text \<open>
  \<^verbatim>\<open>GET /projects\<close>. The staff filter reads \<^verbatim>\<open>p.assignedUsers.includes(user.id)\<close>
  on every fetched value; on a value that is not a project \<^verbatim>\<open>p.assignedUsers\<close> is
  \<^verbatim>\<open>undefined\<close> and the call throws, which the handler answers with status 500.
\<close>

fun as_project :: "kv_value \<Rightarrow> project option" where
  "as_project (VProject p) = Some p"
| "as_project _ = None"

definition staff_filter :: "string \<Rightarrow> kv_value list \<Rightarrow> kv_value list option" where
  "staff_filter uid projects =
     (if list_all (\<lambda>v. as_project v \<noteq> None) projects
      then Some (filter (\<lambda>v. case as_project v of
                               Some p \<Rightarrow> uid \<in> set (project_assignedUsers p)
                             | None \<Rightarrow> False) projects)
      else None)"

definition get_projects :: "string option \<Rightarrow> store \<Rightarrow> store \<times> response" where
  "get_projects caller s =
     (case caller of
        None \<Rightarrow> (s, Error 401 ''Unauthorized'')
      | Some uid \<Rightarrow>
          (case get_user s uid of
             None \<Rightarrow> (s, Error 500 ''Failed to fetch projects'')
           | Some currentUser \<Rightarrow>
               if \<not> truthy_str (user_orgId currentUser)
               then (s, Json_list [])
               else
                 let projectIds = get_ids s (''org-projects:'' @ tmpl (user_orgId currentUser));
                     projects = kv_mget s (map (\<lambda>i. ''projects:'' @ i) projectIds)
                 in if user_role currentUser = ''staff''
                    then (case staff_filter uid projects of
                            None \<Rightarrow> (s, Error 500 ''Failed to fetch projects'')
                          | Some assigned \<Rightarrow> (s, Json_list assigned))
                    else (s, Json_list projects)))"

text \<open>\<^verbatim>\<open>PUT /projects/:projectId\<close> (admin only).\<close>

definition put_project :: "string option \<Rightarrow> string \<Rightarrow> project_updates \<Rightarrow> store \<Rightarrow> store \<times> response" where
  "put_project caller projectId updates s =
     (case caller of
        None \<Rightarrow> (s, Error 401 ''Unauthorized'')
      | Some uid \<Rightarrow>
          (case get_user s uid of
             None \<Rightarrow> (s, Error 500 ''Failed to update project'')
           | Some currentUser \<Rightarrow>
               if user_role currentUser \<noteq> ''admin''
               then (s, Error 403 ''Forbidden - Admin only'')
               else
                 (case get_project s projectId of
                    None \<Rightarrow> (s, Error 404 ''Project not found'')
                  | Some project \<Rightarrow>
                      let updatedProject = (spread_project project updates)\<lparr>project_id := projectId\<rparr>
                      in (kv_set (''projects:'' @ projectId) (VProject updatedProject) s,
                          Success_with (VProject updatedProject)))))"

text \<open>\<^verbatim>\<open>DELETE /projects/:projectId\<close> (admin only).\<close>

definition delete_project :: "string option \<Rightarrow> string \<Rightarrow> store \<Rightarrow> store \<times> response" where
  "delete_project caller projectId s =
     (case caller of
        None \<Rightarrow> (s, Error 401 ''Unauthorized'')
      | Some uid \<Rightarrow>
          (case get_user s uid of
             None \<Rightarrow> (s, Error 500 ''Failed to delete project'')
           | Some currentUser \<Rightarrow>
               if user_role currentUser \<noteq> ''admin''
               then (s, Error 403 ''Forbidden - Admin only'')
               else
                 (case get_project s projectId of
                    None \<Rightarrow> (s, Error 404 ''Project not found'')
                  | Some project \<Rightarrow>
                      let s1 = kv_del (''projects:'' @ projectId) s;
                          orgProjects = get_ids s1 (''org-projects:'' @ tmpl (user_orgId currentUser))
                      in (kv_set (''org-projects:'' @ tmpl (user_orgId currentUser))
                            (VIds (filter (\<lambda>i. i \<noteq> projectId) orgProjects)) s1,
                          Success))))"

section \<open>Timesheet routes\<close>

record timesheet_body =
  tb_projectId :: string
  tb_taskName :: string
  tb_startTime :: string
  tb_endTime :: string
  tb_duration :: int
  tb_notes :: string
  tb_beforePhotoUrl :: "string option"
  tb_afterPhotoUrl :: "string option"

record timesheet_updates =
  upd_ts_id :: "string option"
  upd_ts_userId :: "string option"
  upd_ts_projectId :: "string option"
  upd_ts_taskName :: "string option"
  upd_ts_startTime :: "string option"
  upd_ts_endTime :: "string option"
  upd_ts_duration :: "int option"
  upd_ts_notes :: "string option"
  upd_ts_beforePhotoUrl :: "string option option"
  upd_ts_afterPhotoUrl :: "string option option"
  upd_ts_createdAt :: "string option"

definition spread_timesheet :: "timesheet \<Rightarrow> timesheet_updates \<Rightarrow> timesheet" where
  "spread_timesheet t u =
     \<lparr> ts_id = override (ts_id t) (upd_ts_id u),
       ts_userId = override (ts_userId t) (upd_ts_userId u),
       ts_projectId = override (ts_projectId t) (upd_ts_projectId u),
       ts_taskName = override (ts_taskName t) (upd_ts_taskName u),
       ts_startTime = override (ts_startTime t) (upd_ts_startTime u),
       ts_endTime = override (ts_endTime t) (upd_ts_endTime u),
       ts_duration = override (ts_duration t) (upd_ts_duration u),
       ts_notes = override (ts_notes t) (upd_ts_notes u),
       ts_beforePhotoUrl = override (ts_beforePhotoUrl t) (upd_ts_beforePhotoUrl u),
       ts_afterPhotoUrl = override (ts_afterPhotoUrl t) (upd_ts_afterPhotoUrl u),
       ts_createdAt = override (ts_createdAt t) (upd_ts_createdAt u) \<rparr>"

text \<open>\<^verbatim>\<open>x || null\<close> on a nullable string.\<close>

definition or_null :: "string option \<Rightarrow> string option" where
  "or_null x = (if truthy_str x then x else None)"

text \<open>\<^verbatim>\<open>POST /timesheets\<close>.\<close>

definition post_timesheets :: "env \<Rightarrow> string option \<Rightarrow> timesheet_body \<Rightarrow> store \<Rightarrow> store \<times> response" where
  "post_timesheets e caller body s =
     (case caller of
        None \<Rightarrow> (s, Error 401 ''Unauthorized'')
      | Some uid \<Rightarrow>
          let timesheetId = ''timesheet_'' @ gen_suffix e;
              timesheet = \<lparr> ts_id = timesheetId, ts_userId = uid,
                            ts_projectId = tb_projectId body, ts_taskName = tb_taskName body,
                            ts_startTime = tb_startTime body, ts_endTime = tb_endTime body,
                            ts_duration = tb_duration body, ts_notes = tb_notes body,
                            ts_beforePhotoUrl = or_null (tb_beforePhotoUrl body),
                            ts_afterPhotoUrl = or_null (tb_afterPhotoUrl body),
                            ts_createdAt = now_iso e \<rparr>;
              s1 = kv_set (''timesheets:'' @ timesheetId) (VTimesheet timesheet) s;
              userTimesheets = get_ids s1 (''user-timesheets:'' @ uid)
          in (kv_set (''user-timesheets:'' @ uid) (VIds (userTimesheets @ [timesheetId])) s1,
              Success_with (VTimesheet timesheet)))"

text \<open>\<^verbatim>\<open>PUT /timesheets/:timesheetId\<close>.\<close>

definition put_timesheet :: "string option \<Rightarrow> string \<Rightarrow> timesheet_updates \<Rightarrow> store \<Rightarrow> store \<times> response" where
  "put_timesheet caller timesheetId updates s =
     (case caller of
        None \<Rightarrow> (s, Error 401 ''Unauthorized'')
      | Some uid \<Rightarrow>
          (case get_timesheet s timesheetId of
             None \<Rightarrow> (s, Error 404 ''Timesheet not found'')
           | Some timesheet \<Rightarrow>
               if ts_userId timesheet \<noteq> uid
               then (s, Error 403 ''Forbidden'')
               else
                 let updatedTimesheet = (spread_timesheet timesheet updates)
                       \<lparr> ts_id := timesheetId, ts_userId := uid \<rparr>
                 in (kv_set (''timesheets:'' @ timesheetId) (VTimesheet updatedTimesheet) s,
                     Success_with (VTimesheet updatedTimesheet))))"

text \<open>\<^verbatim>\<open>DELETE /timesheets/:timesheetId\<close>.\<close>

definition delete_timesheet :: "string option \<Rightarrow> string \<Rightarrow> store \<Rightarrow> store \<times> response" where
  "delete_timesheet caller timesheetId s =
     (case caller of
        None \<Rightarrow> (s, Error 401 ''Unauthorized'')
      | Some uid \<Rightarrow>
          (case get_timesheet s timesheetId of
             None \<Rightarrow> (s, Error 404 ''Timesheet not found'')
           | Some timesheet \<Rightarrow>
               if ts_userId timesheet \<noteq> uid
               then (s, Error 403 ''Forbidden'')
               else
                 let s1 = kv_del (''timesheets:'' @ timesheetId) s;
                     userTimesheets = get_ids s1 (''user-timesheets:'' @ uid)
                 in (kv_set (''user-timesheets:'' @ uid)
                       (VIds (filter (\<lambda>i. i \<noteq> timesheetId) userTimesheets)) s1,
                     Success)))"

section \<open>The routes that write to the store\<close>

text \<open>
  \<^verbatim>\<open>GET /test-database\<close> writes a probe under \<^verbatim>\<open>test-key-{Date.now()}\<close>, reads it
  back and deletes it.
\<close>

definition test_database :: "env \<Rightarrow> store \<Rightarrow> store \<times> response" where
  "test_database e s =
     (let testKey = ''test-key-'' @ now_text e;
          s1 = kv_set testKey (VProbe ''Hello from test'' (now_ms e)) s;
          s2 = kv_del testKey s1
      in (s2, Probe_log True))"

text \<open>
  One constructor for each route of the application that calls \<^verbatim>\<open>kv.set\<close> or
  \<^verbatim>\<open>kv.del\<close>, and for \<^verbatim>\<open>GET /projects\<close>. The routes left out (health,
  test-codes, test-code, the two verify-invite-code routes, the GET routes for invite
  codes, organizations, users and timesheets, and upload-photo) contain no call of
  \<^verbatim>\<open>kv.set\<close> or \<^verbatim>\<open>kv.del\<close>.
\<close>

datatype request =
    Signup "string + string" signup_body
  | Post_invite_codes "string option" invite_body
  | Toggle_invite_code "string option" string
  | Delete_invite_code "string option" string
  | Put_users_me "string option" user_updates
  | Put_user "string option" string user_updates
  | Delete_user "string option" string
  | Post_projects "string option" project_body
  | Get_projects "string option"
  | Put_project "string option" string project_updates
  | Delete_project "string option" string
  | Post_timesheets "string option" timesheet_body
  | Put_timesheet "string option" string timesheet_updates
  | Delete_timesheet "string option" string
  | Test_database

fun handle :: "env \<Rightarrow> request \<Rightarrow> store \<Rightarrow> store \<times> response" where
  "handle e (Signup created body) s = signup e created body s"
| "handle e (Post_invite_codes caller body) s = post_invite_codes e caller body s"
| "handle e (Toggle_invite_code caller codeId) s = toggle_invite_code caller codeId s"
| "handle e (Delete_invite_code caller codeId) s = delete_invite_code caller codeId s"
| "handle e (Put_users_me caller updates) s = put_users_me caller updates s"
| "handle e (Put_user caller userId updates) s = put_user caller userId updates s"
| "handle e (Delete_user caller userId) s = delete_user caller userId s"
| "handle e (Post_projects caller body) s = post_projects e caller body s"
| "handle e (Get_projects caller) s = get_projects caller s"
| "handle e (Put_project caller projectId updates) s = put_project caller projectId updates s"
| "handle e (Delete_project caller projectId) s = delete_project caller projectId s"
| "handle e (Post_timesheets caller body) s = post_timesheets e caller body s"
| "handle e (Put_timesheet caller timesheetId updates) s = put_timesheet caller timesheetId updates s"
| "handle e (Delete_timesheet caller timesheetId) s = delete_timesheet caller timesheetId s"
| "handle e Test_database s = test_database e s"

section \<open>A sample organization\<close>

text \<open>
  One organization \<open>o1\<close> with an admin \<open>a1\<close> and a staff member \<open>u2\<close>, two
  projects, one timesheet entry of \<open>u2\<close> and one invite code, each entity listed in
  its index, and a user \<open>u9\<close> who signed up without an organization. The concrete
  evaluations below run on this store.
\<close>

definition demo_admin :: user where
  "demo_admin = \<lparr> user_id = ''a1'', user_email = ''ada@example.org'', user_name = ''Ada'',
                  user_role = ''admin'', user_orgId = Some ''o1'', user_createdAt = ''2025-01-01'' \<rparr>"

definition demo_staff :: user where
  "demo_staff = \<lparr> user_id = ''u2'', user_email = ''bob@example.org'', user_name = ''Bob'',
                  user_role = ''staff'', user_orgId = Some ''o1'', user_createdAt = ''2025-01-02'' \<rparr>"

definition demo_loner :: user where
  "demo_loner = \<lparr> user_id = ''u9'', user_email = ''eve@example.org'', user_name = ''Eve'',
                  user_role = ''admin'', user_orgId = None, user_createdAt = ''2025-01-06'' \<rparr>"

definition demo_project1 :: project where
  "demo_project1 = \<lparr> project_id = ''p1'', project_name = ''Roof'', project_description = ''Repair'',
                     project_orgId = Some ''o1'', project_assignedUsers = [''a1''],
                     project_createdAt = ''2025-01-03'', project_createdBy = ''a1'' \<rparr>"

definition demo_project2 :: project where
  "demo_project2 = \<lparr> project_id = ''p2'', project_name = ''Fence'', project_description = ''Paint'',
                     project_orgId = Some ''o1'', project_assignedUsers = [''u2''],
                     project_createdAt = ''2025-01-04'', project_createdBy = ''a1'' \<rparr>"

definition demo_timesheet :: timesheet where
  "demo_timesheet = \<lparr> ts_id = ''t1'', ts_userId = ''u2'', ts_projectId = ''p2'',
                      ts_taskName = ''Primer'', ts_startTime = ''2025-01-05T08:00:00.000Z'',
                      ts_endTime = ''2025-01-05T09:30:00.000Z'', ts_duration = 90, ts_notes = [],
                      ts_beforePhotoUrl = None, ts_afterPhotoUrl = None,
                      ts_createdAt = ''2025-01-05'' \<rparr>"

definition demo_code :: invite_code where
  "demo_code = \<lparr> ic_id = ''c1'', ic_code = ''ABCD1234'', ic_orgId = Some ''o1'',
                 ic_createdBy = ''a1'', ic_createdAt = ''2025-01-01'', ic_expiresAt = Some 2000,
                 ic_maxUses = Some 1, ic_currentUses = 0, ic_isActive = True \<rparr>"

definition demo_store :: store where
  "demo_store =
     [(''users:a1'', VUser demo_admin), (''users:u2'', VUser demo_staff),
      (''org-users:o1'', VIds [''a1'', ''u2'']),
      (''projects:p1'', VProject demo_project1), (''projects:p2'', VProject demo_project2),
      (''org-projects:o1'', VIds [''p1'', ''p2'']),
      (''timesheets:t1'', VTimesheet demo_timesheet), (''user-timesheets:u2'', VIds [''t1'']),
      (''invite-codes:c1'', VInvite demo_code), (''org-invite-codes:o1'', VIds [''c1'']),
      (''users:u9'', VUser demo_loner)]"

definition demo_env :: env where
  "demo_env = \<lparr> now_ms = 1000, now_iso = ''2025-02-01T00:00:00.000Z'', now_text = ''1000'',
                gen_suffix = ''1000_k3j9x0q2z'', rand_code = ''Q7W8E9R0'',
                type_error = ''Cannot read properties of undefined'',
                date_plus_days = (\<lambda>d. if 1000 + d * 86400000 \<le> 8640000000000000
                                      then Some (1000 + d * 86400000) else None),
                range_error = ''Invalid time value'' \<rparr>"

definition demo_signup :: "string option \<Rightarrow> string option \<Rightarrow> signup_body" where
  "demo_signup code role =
     \<lparr> sb_email = ''cy@example.org'', sb_password = ''secret'', sb_name = ''Cy'',
       sb_organizationName = None, sb_inviteCode = code, sb_role = role \<rparr>"

definition role_only :: "string \<Rightarrow> user_updates" where
  "role_only r = \<lparr> upd_user_id = None, upd_user_email = None, upd_user_name = None,
                   upd_user_role = Some r, upd_user_orgId = None, upd_user_createdAt = None \<rparr>"

definition demo_post :: timesheet_body where
  "demo_post = \<lparr> tb_projectId = ''p1'', tb_taskName = ''Survey'',
                 tb_startTime = ''2025-02-01T08:00:00.000Z'', tb_endTime = ''2025-02-01T09:00:00.000Z'',
                 tb_duration = 60, tb_notes = [], tb_beforePhotoUrl = Some [],
                 tb_afterPhotoUrl = None \<rparr>"

definition demo_take_over :: timesheet_updates where
  "demo_take_over = \<lparr> upd_ts_id = Some ''t9'', upd_ts_userId = Some ''a1'', upd_ts_projectId = None,
                      upd_ts_taskName = None, upd_ts_startTime = None, upd_ts_endTime = None,
                      upd_ts_duration = Some 30, upd_ts_notes = None, upd_ts_beforePhotoUrl = None,
                      upd_ts_afterPhotoUrl = None, upd_ts_createdAt = None \<rparr>"

definition demo_loner_body :: project_body where
  "demo_loner_body = \<lparr> pb_name = ''Shed'', pb_description = ''Build'',
                       pb_assignedUsers = None \<rparr>"

definition demo_loner_project :: project where
  "demo_loner_project = \<lparr> project_id = ''project_1000_k3j9x0q2z'', project_name = ''Shed'',
                          project_description = ''Build'', project_orgId = None,
                          project_assignedUsers = [],
                          project_createdAt = ''2025-02-01T00:00:00.000Z'',
                          project_createdBy = ''u9'' \<rparr>"

text \<open>The sample store after \<open>u9\<close> has created a project with \<^verbatim>\<open>POST /projects\<close>.\<close>

definition demo_loner_store :: store where
  "demo_loner_store = fst (post_projects demo_env (Some ''u9'') demo_loner_body demo_store)"

section \<open>Properties\<close>

subsection \<open>Keys and rows\<close>

lemma kv_get_set: "kv_get (kv_set k v s) k' = (if k' = k then Some v else kv_get s k')"
  by (simp add: kv_get_def kv_set_def update_conv')

lemma kv_get_del: "kv_get (kv_del k s) k' = (if k' = k then None else kv_get s k')"
  by (simp add: kv_get_def kv_del_def delete_conv')

lemma kv_set_twice: "kv_set k v (kv_set k v' s) = kv_set k v s"
  by (simp add: kv_set_def)

lemma kv_set_same: "kv_get s k = Some v \<Longrightarrow> kv_set k v s = s"
  by (simp add: kv_set_def kv_get_def update_triv)

subsection \<open>Reading after a write\<close>

lemmas demo_defs = demo_store_def demo_admin_def demo_staff_def demo_loner_def role_only_def demo_project1_def
  demo_project2_def demo_timesheet_def demo_code_def demo_env_def demo_signup_def

lemmas kv_defs = kv_get_def kv_set_def kv_del_def get_ids_def get_user_def

lemma get_user_kv_set:
  "get_user (kv_set k v s) uid =
     (if k = ''users:'' @ uid then (case v of VUser u \<Rightarrow> Some u | _ \<Rightarrow> None) else get_user s uid)"
  by (simp add: get_user_def kv_get_set)

lemma get_user_kv_del:
  "get_user (kv_del k s) uid = (if k = ''users:'' @ uid then None else get_user s uid)"
  by (simp add: get_user_def kv_get_del)

lemma get_invite_kv_set:
  "get_invite (kv_set k v s) cid =
     (if k = ''invite-codes:'' @ cid then (case v of VInvite c \<Rightarrow> Some c | _ \<Rightarrow> None) else get_invite s cid)"
  by (simp add: get_invite_def kv_get_set)

lemma get_invite_kv_del:
  "get_invite (kv_del k s) cid = (if k = ''invite-codes:'' @ cid then None else get_invite s cid)"
  by (simp add: get_invite_def kv_get_del)

lemma get_timesheet_kv_set:
  "get_timesheet (kv_set k v s) tid =
     (if k = ''timesheets:'' @ tid then (case v of VTimesheet t \<Rightarrow> Some t | _ \<Rightarrow> None) else get_timesheet s tid)"
  by (simp add: get_timesheet_def kv_get_set)

lemma get_timesheet_kv_del:
  "get_timesheet (kv_del k s) tid = (if k = ''timesheets:'' @ tid then None else get_timesheet s tid)"
  by (simp add: get_timesheet_def kv_get_del)

lemma get_ids_kv_set:
  "get_ids (kv_set k v s) k' =
     (if k = k' then (case v of VIds ids \<Rightarrow> ids | _ \<Rightarrow> []) else get_ids s k')"
  by (simp add: get_ids_def kv_get_set)

lemma get_ids_kv_del:
  "get_ids (kv_del k s) k' = (if k = k' then [] else get_ids s k')"
  by (simp add: get_ids_def kv_get_del)

lemma get_invite_SomeD:
  "get_invite s cid = Some c \<Longrightarrow> kv_get s (''invite-codes:'' @ cid) = Some (VInvite c)"
  by (auto simp: get_invite_def split: option.splits kv_value.splits)

lemma get_user_signup_index: "get_user (signup_index u org s) uid = get_user s uid"
  by (simp add: signup_index_def Let_def get_user_kv_set)

lemma get_invite_signup_index: "get_invite (signup_index u org s) cid = get_invite s cid"
  by (simp add: signup_index_def Let_def get_invite_kv_set)

lemma get_timesheet_signup_index: "get_timesheet (signup_index u org s) tid = get_timesheet s tid"
  by (simp add: signup_index_def Let_def get_timesheet_kv_set)

subsection \<open>Deleting a user\<close>

text \<open>
  Claim C1: after \<^verbatim>\<open>DELETE /users/{userId}\<close> of a user with an organization, the
  user's id is absent from \<^verbatim>\<open>org-users:{orgId}\<close>. The handler filters the list under
  the key \<^verbatim>\<open>orgs:{orgId}:users\<close> instead, a key that no other route reads or
  writes: signup appends to \<^verbatim>\<open>org-users:{orgId}\<close>, and the listings of an
  organization's users and timesheets read that key. On the sample store the admin
  deletes \<open>u2\<close>: the record goes, the entry in \<^verbatim>\<open>org-users:o1\<close> stays, and an
  empty list appears under \<^verbatim>\<open>orgs:o1:users\<close>.
\<close>

theorem delete_user_leaves_org_users_entry:
  "snd (delete_user (Some ''a1'') ''u2'' demo_store) = Success_msg ''User deleted successfully'' \<and>
   get_user demo_store ''u2'' = Some demo_staff \<and> user_orgId demo_staff = Some ''o1'' \<and>
   kv_get (fst (delete_user (Some ''a1'') ''u2'' demo_store)) ''users:u2'' = None \<and>
   get_ids (fst (delete_user (Some ''a1'') ''u2'' demo_store)) ''org-users:o1'' = [''a1'', ''u2''] \<and>
   kv_get (fst (delete_user (Some ''a1'') ''u2'' demo_store)) ''orgs:o1:users'' = Some (VIds [])"
  by (simp add: delete_user_def Let_def demo_defs kv_defs)

subsection \<open>The admin routes on the caller's own id\<close>

text \<open>
  Claim C2 says that \<^verbatim>\<open>PUT /users/{userId}\<close> on the caller's own id does not change
  the caller's role. The handler has no check of the target against the caller: the
  admin \<open>a1\<close> of the sample store sends \<^verbatim>\<open>{role: 'staff'}\<close> to their own id and is
  stored as staff.
\<close>

theorem put_user_self_role_counterexample:
  "get_user demo_store ''a1'' = Some demo_admin \<and> user_role demo_admin = ''admin'' \<and>
   get_user (fst (put_user (Some ''a1'') ''a1'' (role_only ''staff'') demo_store)) ''a1''
     = Some (demo_admin\<lparr>user_role := ''staff''\<rparr>) \<and>
   user_role (demo_admin\<lparr>user_role := ''staff''\<rparr>) \<noteq> user_role demo_admin"
  by (simp add: put_user_def Let_def demo_defs kv_defs spread_user_def override_def)

text \<open>
  Claim C2, amended: for an admin caller, \<^verbatim>\<open>PUT /users/{userId}\<close> on the caller's
  own id stores the stored record overlaid with the body (the id kept), so the caller's
  role becomes the body's role when the body has one and stays otherwise; and
  \<^verbatim>\<open>DELETE /users/{userId}\<close> on the caller's own id is answered with status 400 and
  leaves the store as it was.
\<close>

theorem put_user_self_merges_delete_self_rejected:
  assumes "get_user s uid = Some currentUser" and "user_role currentUser = ''admin''"
  shows "get_user (fst (put_user (Some uid) uid updates s)) uid
           = Some ((spread_user currentUser updates)\<lparr>user_id := uid\<rparr>) \<and>
         user_role ((spread_user currentUser updates)\<lparr>user_id := uid\<rparr>)
           = override (user_role currentUser) (upd_user_role updates) \<and>
         delete_user (Some uid) uid s = (s, Error 400 ''Cannot delete your own account'')"
  using assms
  by (simp add: put_user_def delete_user_def Let_def get_user_kv_set spread_user_def)

theorem put_user_self_merges_delete_self_rejected_witness:
  "get_user (fst (put_user (Some ''a1'') ''a1'' (role_only ''staff'') demo_store)) ''a1''
           = Some ((spread_user demo_admin (role_only ''staff''))\<lparr>user_id := ''a1''\<rparr>) \<and>
         user_role ((spread_user demo_admin (role_only ''staff''))\<lparr>user_id := ''a1''\<rparr>)
           = ''staff'' \<and>
         delete_user (Some ''a1'') ''a1'' demo_store = (demo_store, Error 400 ''Cannot delete your own account'')"
proof -
  have u: "get_user demo_store ''a1'' = Some demo_admin"
    by (simp add: demo_defs kv_defs)
  have r: "user_role demo_admin = ''admin''"
    by (simp add: demo_defs)
  show ?thesis
    using put_user_self_merges_delete_self_rejected [OF u r, of "role_only ''staff''"]
    by (simp add: override_def role_only_def)
qed

subsection \<open>Signup with an invite code\<close>

lemma find_valid_code_SomeD:
  "find_valid_code now code s = Some c \<Longrightarrow>
     c \<in> set (stored_invite_codes s) \<and> code_is_valid now code c"
  by (auto simp: find_valid_code_def find_Some_iff)

lemma find_valid_code_exists:
  "c \<in> set (stored_invite_codes s) \<Longrightarrow> code_is_valid now code c \<Longrightarrow>
     \<exists>c'. find_valid_code now code s = Some c'"
  by (cases "find_valid_code now code s") (auto simp: find_valid_code_def find_None_iff)

lemma signup_redeems:
  assumes "sb_inviteCode body = Some code" and "code \<noteq> []"
    and "find_valid_code (now_ms e) code s = Some c"
  shows "snd (signup e (Inr uid) body s) = Signup_ok uid (ic_orgId c)"
    and "get_user (fst (signup e (Inr uid) body s)) uid =
           Some \<lparr> user_id = uid, user_email = sb_email body, user_name = sb_name body,
                  user_role = ''staff'', user_orgId = ic_orgId c, user_createdAt = now_iso e \<rparr>"
    and "get_invite (fst (signup e (Inr uid) body s)) (ic_id c) =
           Some (c\<lparr>ic_currentUses := ic_currentUses c + 1\<rparr>)"
  using assms
  by (simp_all add: signup_def Let_def get_user_signup_index get_invite_signup_index
      get_user_kv_set get_invite_kv_set)

lemma signup_refuses:
  assumes "sb_inviteCode body = Some code" and "code \<noteq> []"
    and "find_valid_code (now_ms e) code s = None"
  shows "signup e (Inr uid) body s = (s, Error 400 ''Invalid or expired invite code'')"
  using assms by (simp add: signup_def Let_def)

lemma stored_invite_codes_demo: "stored_invite_codes demo_store = [demo_code]"
  by (simp add: stored_invite_codes_def kv_getByPrefix_def starts_with_def demo_store_def
      List.map_filter_simps)

lemma demo_redeem_find: "find_valid_code (now_ms demo_env) ''ABCD1234'' demo_store = Some demo_code"
  by (simp add: find_valid_code_def stored_invite_codes_demo code_is_valid_def demo_code_def
      demo_env_def)

lemma demo_redeem_store:
  "fst (signup demo_env (Inr ''u3'') (demo_signup (Some ''ABCD1234'') None) demo_store) =
     signup_index ''u3'' (ic_orgId demo_code)
       (kv_set (''users:'' @ ''u3'')
          (VUser \<lparr> user_id = ''u3'', user_email = ''cy@example.org'', user_name = ''Cy'',
                   user_role = ''staff'', user_orgId = ic_orgId demo_code,
                   user_createdAt = now_iso demo_env \<rparr>)
          (kv_set (''invite-codes:'' @ ic_id demo_code)
             (VInvite (demo_code\<lparr>ic_currentUses := ic_currentUses demo_code + 1\<rparr>)) demo_store))"
  by (simp add: signup_def Let_def demo_redeem_find demo_signup_def)

lemma demo_redeem_codes:
  "stored_invite_codes (fst (signup demo_env (Inr ''u3'')
       (demo_signup (Some ''ABCD1234'') None) demo_store)) = [demo_code\<lparr>ic_currentUses := 1\<rparr>]"
  unfolding demo_redeem_store
  by (simp add: signup_index_def Let_def
      stored_invite_codes_def kv_getByPrefix_def starts_with_def demo_store_def kv_defs
      List.map_filter_simps demo_code_def)

text \<open>
  Claim C3: a signup presents an invite code (a non-empty text); some stored invite code
  \<open>c\<close> carries that text, is active, is not expired and has uses left. Then the signup
  joins through a stored code \<open>c'\<close> with that text (the first valid one in the scan,
  which is \<open>c\<close> itself when no other stored code carries the text): the answer names
  the orgId of \<open>c'\<close>, and the stored user has that orgId and the role \<open>staff\<close>,
  whatever role the body asks for.
\<close>

theorem signup_with_valid_invite_code:
  assumes "sb_inviteCode body = Some code" and "code \<noteq> []"
    and "c \<in> set (stored_invite_codes s)" and "ic_code c = code" and "ic_isActive c"
    and "\<forall>t. ic_expiresAt c = Some t \<longrightarrow> now_ms e < t"
    and "\<forall>m. ic_maxUses c = Some m \<longrightarrow> m = 0 \<or> ic_currentUses c < m"
  shows "\<exists>c'. find_valid_code (now_ms e) code s = Some c' \<and>
           c' \<in> set (stored_invite_codes s) \<and> ic_code c' = code \<and>
           ((\<forall>d\<in>set (stored_invite_codes s). ic_code d = code \<longrightarrow> d = c) \<longrightarrow> c' = c) \<and>
           snd (signup e (Inr uid) body s) = Signup_ok uid (ic_orgId c') \<and>
           get_user (fst (signup e (Inr uid) body s)) uid =
             Some \<lparr> user_id = uid, user_email = sb_email body, user_name = sb_name body,
                    user_role = ''staff'', user_orgId = ic_orgId c', user_createdAt = now_iso e \<rparr>"
proof -
  have "code_is_valid (now_ms e) code c"
    using assms(4-7) by (auto simp: code_is_valid_def split: option.splits)
  then obtain c' where f: "find_valid_code (now_ms e) code s = Some c'"
    using find_valid_code_exists [OF assms(3)] by blast
  have m: "c' \<in> set (stored_invite_codes s)" "ic_code c' = code"
    using find_valid_code_SomeD [OF f] by (simp_all add: code_is_valid_def)
  show ?thesis
    using f m signup_redeems(1,2) [OF assms(1,2) f] by auto
qed

theorem signup_with_valid_invite_code_witness:
  "\<exists>c'. find_valid_code (now_ms demo_env) ''ABCD1234'' demo_store = Some c' \<and>
         c' \<in> set (stored_invite_codes demo_store) \<and> ic_code c' = ''ABCD1234'' \<and>
         c' = demo_code \<and>
         snd (signup demo_env (Inr ''u3'') (demo_signup (Some ''ABCD1234'') (Some ''admin'')) demo_store)
           = Signup_ok ''u3'' (ic_orgId c') \<and>
         get_user (fst (signup demo_env (Inr ''u3'')
                     (demo_signup (Some ''ABCD1234'') (Some ''admin'')) demo_store)) ''u3'' =
           Some \<lparr> user_id = ''u3'', user_email = ''cy@example.org'', user_name = ''Cy'',
                  user_role = ''staff'', user_orgId = ic_orgId c',
                  user_createdAt = ''2025-02-01T00:00:00.000Z'' \<rparr>"
proof -
  let ?body = "demo_signup (Some ''ABCD1234'') (Some ''admin'')"
  have b: "sb_inviteCode ?body = Some ''ABCD1234''"
    by (simp add: demo_signup_def)
  have n: "''ABCD1234'' \<noteq> []"
    by simp
  have m: "demo_code \<in> set (stored_invite_codes demo_store)"
    by (simp add: stored_invite_codes_demo)
  have c: "ic_code demo_code = ''ABCD1234''" and a: "ic_isActive demo_code"
    by (simp_all add: demo_code_def)
  have x: "\<forall>t. ic_expiresAt demo_code = Some t \<longrightarrow> now_ms demo_env < t"
    by (simp add: demo_code_def demo_env_def)
  have u: "\<forall>m. ic_maxUses demo_code = Some m \<longrightarrow> m = 0 \<or> ic_currentUses demo_code < m"
    by (simp add: demo_code_def)
  have only: "\<forall>d\<in>set (stored_invite_codes demo_store). ic_code d = ''ABCD1234'' \<longrightarrow> d = demo_code"
    by (simp add: stored_invite_codes_demo)
  have sel: "sb_email ?body = ''cy@example.org''" "sb_name ?body = ''Cy''"
    "now_iso demo_env = ''2025-02-01T00:00:00.000Z''"
    by (simp_all add: demo_signup_def demo_env_def)
  show ?thesis
    using signup_with_valid_invite_code [OF b n m c a x u, of "''u3''"] only
    by (auto simp: sel)
qed

text \<open>
  Claim C4: a signup presents an invite code. If the scan finds a valid code \<open>c\<close>, the
  signup succeeds and the record stored under the id of \<open>c\<close> afterwards is \<open>c\<close> with
  \<^verbatim>\<open>currentUses\<close> one higher. If every stored code with the presented text is
  inactive, or past its expiry, or has \<^verbatim>\<open>currentUses\<close> equal to its \<^verbatim>\<open>maxUses\<close>,
  the answer is status 400 with \<^verbatim>\<open>Invalid or expired invite code\<close> and the store is
  unchanged, so no user record is written. A \<^verbatim>\<open>maxUses\<close> is set when it is neither
  \<^verbatim>\<open>null\<close> nor \<open>0\<close>, as in the handler that creates codes
  (\<^verbatim>\<open>maxUses || null\<close>) and in the check itself (\<^verbatim>\<open>!c.maxUses\<close>). The witness is
  the scenario of the spec: a code with \<^verbatim>\<open>maxUses = 1\<close> is redeemed once, and the next
  signup with it is refused.
\<close>

theorem signup_invite_code_redemption:
  assumes "sb_inviteCode body = Some code" and "code \<noteq> []"
  shows "(\<forall>c. find_valid_code (now_ms e) code s = Some c \<longrightarrow>
            snd (signup e (Inr uid) body s) = Signup_ok uid (ic_orgId c) \<and>
            get_invite (fst (signup e (Inr uid) body s)) (ic_id c) =
              Some (c\<lparr>ic_currentUses := ic_currentUses c + 1\<rparr>)) \<and>
         ((\<forall>c\<in>set (stored_invite_codes s). ic_code c = code \<longrightarrow>
             \<not> ic_isActive c \<or>
             (\<exists>t. ic_expiresAt c = Some t \<and> t < now_ms e) \<or>
             (\<exists>m. ic_maxUses c = Some m \<and> m \<noteq> 0 \<and> ic_currentUses c = m)) \<longrightarrow>
          signup e (Inr uid) body s = (s, Error 400 ''Invalid or expired invite code''))"
proof (intro conjI allI impI)
  fix c assume "find_valid_code (now_ms e) code s = Some c"
  then show "snd (signup e (Inr uid) body s) = Signup_ok uid (ic_orgId c)"
    and "get_invite (fst (signup e (Inr uid) body s)) (ic_id c) =
              Some (c\<lparr>ic_currentUses := ic_currentUses c + 1\<rparr>)"
    using signup_redeems(1,3) [OF assms] by simp_all
next
  assume r: "\<forall>c\<in>set (stored_invite_codes s). ic_code c = code \<longrightarrow>
             \<not> ic_isActive c \<or>
             (\<exists>t. ic_expiresAt c = Some t \<and> t < now_ms e) \<or>
             (\<exists>m. ic_maxUses c = Some m \<and> m \<noteq> 0 \<and> ic_currentUses c = m)"
  have "find_valid_code (now_ms e) code s = None"
  proof (rule ccontr)
    assume "find_valid_code (now_ms e) code s \<noteq> None"
    then obtain c where "find_valid_code (now_ms e) code s = Some c" by auto
    from find_valid_code_SomeD [OF this] r show False
      by (auto simp: code_is_valid_def split: option.splits)
  qed
  then show "signup e (Inr uid) body s = (s, Error 400 ''Invalid or expired invite code'')"
    by (rule signup_refuses [OF assms])
qed

theorem signup_invite_code_redemption_witness:
  "get_invite (fst (signup demo_env (Inr ''u3'') (demo_signup (Some ''ABCD1234'') None) demo_store))
       (ic_id demo_code) = Some (demo_code\<lparr>ic_currentUses := ic_currentUses demo_code + 1\<rparr>) \<and>
   signup demo_env (Inr ''u4'') (demo_signup (Some ''ABCD1234'') None)
       (fst (signup demo_env (Inr ''u3'') (demo_signup (Some ''ABCD1234'') None) demo_store)) =
     (fst (signup demo_env (Inr ''u3'') (demo_signup (Some ''ABCD1234'') None) demo_store),
      Error 400 ''Invalid or expired invite code'')"
proof -
  let ?body = "demo_signup (Some ''ABCD1234'') None"
  let ?s1 = "fst (signup demo_env (Inr ''u3'') ?body demo_store)"
  have b: "sb_inviteCode ?body = Some ''ABCD1234''"
    by (simp add: demo_signup_def)
  have n: "''ABCD1234'' \<noteq> []"
    by simp
  have used: "\<forall>c\<in>set (stored_invite_codes ?s1). ic_code c = ''ABCD1234'' \<longrightarrow>
             \<not> ic_isActive c \<or>
             (\<exists>t. ic_expiresAt c = Some t \<and> t < now_ms demo_env) \<or>
             (\<exists>m. ic_maxUses c = Some m \<and> m \<noteq> 0 \<and> ic_currentUses c = m)"
    by (simp add: demo_redeem_codes demo_code_def)
  have first: "get_invite ?s1 (ic_id demo_code) =
                 Some (demo_code\<lparr>ic_currentUses := ic_currentUses demo_code + 1\<rparr>)"
    using signup_invite_code_redemption [OF b n, of demo_env demo_store "''u3''", THEN conjunct1]
      demo_redeem_find by simp
  have second: "signup demo_env (Inr ''u4'') ?body ?s1 = (?s1, Error 400 ''Invalid or expired invite code'')"
    using signup_invite_code_redemption [OF b n, of demo_env ?s1 "''u4''", THEN conjunct2] used
    by (rule mp)
  from first second show ?thesis ..
qed

subsection \<open>Listing projects\<close>

lemma map_filter_map: "List.map_filter f (map g xs) = List.map_filter (\<lambda>x. f (g x)) xs"
  by (induction xs) (simp_all add: List.map_filter_simps split: option.splits)

lemma as_project_Some: "as_project v = Some p \<longleftrightarrow> v = VProject p"
  by (cases v) auto

lemma staff_filter_SomeD:
  "staff_filter uid vs = Some ps \<Longrightarrow>
     \<forall>v\<in>set ps. \<exists>p. v = VProject p \<and> uid \<in> set (project_assignedUsers p)"
  by (auto simp: staff_filter_def as_project_Some split: if_splits option.splits)

lemma demo_loner_store_rows:
  "demo_loner_store =
     demo_store @ [(''projects:project_1000_k3j9x0q2z'', VProject demo_loner_project),
                   (''org-projects:null'', VIds [''project_1000_k3j9x0q2z''])]"
  by (simp add: demo_loner_store_def post_projects_def Let_def demo_loner_body_def
      demo_loner_project_def demo_defs kv_defs)

text \<open>
  Claim C5 says that \<^verbatim>\<open>GET /projects\<close> gives every admin caller exactly the
  projects in the caller's org-projects index. The handler answers a caller without an
  organization with the empty list before it reads any index
  (\<^verbatim>\<open>if (!currentUser.orgId) return c.json([])\<close>). Such an admin exists after a
  signup with role \<open>admin\<close> and no organization, as \<open>u9\<close> of the sample store; the
  project that \<open>u9\<close> creates is stored and listed under the index key that
  \<^verbatim>\<open>POST /projects\<close> builds from the caller's orgId, \<^verbatim>\<open>org-projects:null\<close>, and
  \<^verbatim>\<open>GET /projects\<close> by \<open>u9\<close> still answers with the empty list.
\<close>

theorem get_projects_admin_without_org_counterexample:
  "get_user demo_loner_store ''u9'' = Some demo_loner \<and>
   user_role demo_loner = ''admin'' \<and>
   get_ids demo_loner_store (''org-projects:'' @ tmpl (user_orgId demo_loner)) =
     [''project_1000_k3j9x0q2z''] \<and>
   kv_get demo_loner_store ''projects:project_1000_k3j9x0q2z'' = Some (VProject demo_loner_project) \<and>
   get_projects (Some ''u9'') demo_loner_store = (demo_loner_store, Json_list []) \<and>
   Json_list [] \<noteq> Json_list [VProject demo_loner_project]"
  unfolding demo_loner_store_rows
  by (simp add: get_projects_def Let_def demo_defs kv_defs)

text \<open>
  Claim C5, amended: \<^verbatim>\<open>GET /projects\<close> by a caller with a stored profile. For a
  staff caller every element of a returned list is a project whose
  \<^verbatim>\<open>assignedUsers\<close> holds the caller's id. For an admin caller who belongs to an
  organization (a non-empty orgId) the returned list is, in the order of the index, the
  records stored for the ids of \<^verbatim>\<open>org-projects:{orgId}\<close>, unfiltered. A caller
  without an organization gets the empty list, whatever role the caller has.
\<close>

theorem get_projects_by_role:
  assumes "get_user s uid = Some currentUser"
  shows "(user_role currentUser = ''staff'' \<longrightarrow>
            (\<forall>ps. snd (get_projects (Some uid) s) = Json_list ps \<longrightarrow>
               (\<forall>v\<in>set ps. \<exists>p. v = VProject p \<and> uid \<in> set (project_assignedUsers p)))) \<and>
         (user_role currentUser = ''admin'' \<longrightarrow> truthy_str (user_orgId currentUser) \<longrightarrow>
            get_projects (Some uid) s =
              (s, Json_list (List.map_filter (\<lambda>i. kv_get s (''projects:'' @ i))
                    (get_ids s (''org-projects:'' @ tmpl (user_orgId currentUser)))))) \<and>
         (\<not> truthy_str (user_orgId currentUser) \<longrightarrow>
            get_projects (Some uid) s = (s, Json_list []))"
  using assms
  by (auto simp: get_projects_def Let_def kv_mget_def map_filter_map
      split: option.splits dest: staff_filter_SomeD)

theorem get_projects_by_role_witness:
  "snd (get_projects (Some ''u2'') demo_store) = Json_list [VProject demo_project2] \<and>
   ''u2'' \<in> set (project_assignedUsers demo_project2) \<and>
   get_projects (Some ''a1'') demo_store =
     (demo_store, Json_list [VProject demo_project1, VProject demo_project2]) \<and>
   get_projects (Some ''u9'') demo_store = (demo_store, Json_list [])"
proof -
  have staff: "get_user demo_store ''u2'' = Some demo_staff" "user_role demo_staff = ''staff''"
    and admin: "get_user demo_store ''a1'' = Some demo_admin" "user_role demo_admin = ''admin''"
      "truthy_str (user_orgId demo_admin)"
    and loner: "get_user demo_store ''u9'' = Some demo_loner" "\<not> truthy_str (user_orgId demo_loner)"
    by (simp_all add: demo_defs kv_defs)
  have listed: "snd (get_projects (Some ''u2'') demo_store) = Json_list [VProject demo_project2]"
    by (simp add: get_projects_def Let_def staff_filter_def kv_mget_def List.map_filter_simps
        demo_defs kv_defs)
  have all: "List.map_filter (\<lambda>i. kv_get demo_store (''projects:'' @ i))
               (get_ids demo_store (''org-projects:'' @ tmpl (user_orgId demo_admin))) =
             [VProject demo_project1, VProject demo_project2]"
    by (simp add: List.map_filter_simps demo_defs kv_defs)
  have "\<forall>v\<in>set [VProject demo_project2].
          \<exists>p. v = VProject p \<and> ''u2'' \<in> set (project_assignedUsers p)"
    using get_projects_by_role [OF staff(1)] staff(2) listed by blast
  then show ?thesis
    using get_projects_by_role [OF admin(1)] get_projects_by_role [OF loner(1)]
      admin(2,3) loner(2) listed all
    by simp
qed

subsection \<open>Deleting a timesheet entry\<close>

text \<open>
  Claim C6: \<^verbatim>\<open>DELETE /timesheets/{id}\<close> of an existing entry. For the owner the
  answer is the success body, the record is gone and the id is not in the caller's
  \<^verbatim>\<open>user-timesheets\<close> index. For another authenticated caller the answer is status
  403 and the store is the one before, so the record and the owner's index are unchanged.
\<close>

theorem delete_timesheet_owner_only:
  assumes "get_timesheet s tid = Some t"
  shows "(ts_userId t = uid \<longrightarrow>
            snd (delete_timesheet (Some uid) tid s) = Success \<and>
            kv_get (fst (delete_timesheet (Some uid) tid s)) (''timesheets:'' @ tid) = None \<and>
            tid \<notin> set (get_ids (fst (delete_timesheet (Some uid) tid s)) (''user-timesheets:'' @ uid))) \<and>
         (ts_userId t \<noteq> uid \<longrightarrow>
            delete_timesheet (Some uid) tid s = (s, Error 403 ''Forbidden''))"
  using assms
  by (simp add: delete_timesheet_def Let_def kv_get_set kv_get_del get_ids_kv_set)

theorem delete_timesheet_owner_only_witness:
  "snd (delete_timesheet (Some ''u2'') ''t1'' demo_store) = Success \<and>
   kv_get (fst (delete_timesheet (Some ''u2'') ''t1'' demo_store)) ''timesheets:t1'' = None \<and>
   ''t1'' \<notin> set (get_ids (fst (delete_timesheet (Some ''u2'') ''t1'' demo_store)) ''user-timesheets:u2'') \<and>
   delete_timesheet (Some ''a1'') ''t1'' demo_store = (demo_store, Error 403 ''Forbidden'')"
proof -
  have t: "get_timesheet demo_store ''t1'' = Some demo_timesheet"
    by (simp add: demo_defs kv_defs get_timesheet_def)
  have o: "ts_userId demo_timesheet = ''u2''"
    by (simp add: demo_defs)
  show ?thesis
    using delete_timesheet_owner_only [OF t, of "''u2''"]
      delete_timesheet_owner_only [OF t, of "''a1''"] o
    by simp
qed

subsection \<open>Updating one's own profile\<close>

text \<open>
  Claim C7: \<^verbatim>\<open>PUT /users/me\<close> by a caller with a stored profile leaves the stored
  role and orgId as they were, whatever the body holds, and takes the other fields
  (email, name, createdAt) from the body where it has them. The stored id is the
  caller's id.
\<close>

theorem put_users_me_keeps_role_and_orgId:
  assumes "get_user s uid = Some currentProfile"
  shows "get_user (fst (put_users_me (Some uid) updates s)) uid =
           Some \<lparr> user_id = uid,
                  user_email = override (user_email currentProfile) (upd_user_email updates),
                  user_name = override (user_name currentProfile) (upd_user_name updates),
                  user_role = user_role currentProfile,
                  user_orgId = user_orgId currentProfile,
                  user_createdAt = override (user_createdAt currentProfile) (upd_user_createdAt updates) \<rparr>"
  using assms
  by (simp add: put_users_me_def Let_def get_user_kv_set spread_user_def)

theorem put_users_me_keeps_role_and_orgId_witness:
  "get_user (fst (put_users_me (Some ''u2'')
       \<lparr> upd_user_id = Some ''a1'', upd_user_email = None, upd_user_name = Some ''Robert'',
         upd_user_role = Some ''admin'', upd_user_orgId = Some (Some ''o9''),
         upd_user_createdAt = None \<rparr> demo_store)) ''u2'' =
     Some \<lparr> user_id = ''u2'', user_email = ''bob@example.org'', user_name = ''Robert'',
            user_role = ''staff'', user_orgId = Some ''o1'', user_createdAt = ''2025-01-02'' \<rparr>"
proof -
  have u: "get_user demo_store ''u2'' = Some demo_staff"
    by (simp add: demo_defs kv_defs)
  show ?thesis
    using put_users_me_keeps_role_and_orgId [OF u]
    by (simp add: override_def demo_staff_def)
qed

subsection \<open>The owner of a timesheet entry\<close>

lemma get_timesheet_signup:
  "get_timesheet (fst (signup e created body s)) tid = get_timesheet s tid"
  by (simp add: signup_def Let_def get_timesheet_signup_index get_timesheet_kv_set
      split: sum.splits option.splits)

lemma get_timesheet_post_invite_codes:
  "get_timesheet (fst (post_invite_codes e caller body s)) tid = get_timesheet s tid"
  by (simp add: post_invite_codes_def Let_def get_timesheet_kv_set
      split: option.splits sum.splits)

lemma get_timesheet_toggle_invite_code:
  "get_timesheet (fst (toggle_invite_code caller codeId s)) tid = get_timesheet s tid"
  by (simp add: toggle_invite_code_def Let_def get_timesheet_kv_set split: option.splits)

lemma get_timesheet_delete_invite_code:
  "get_timesheet (fst (delete_invite_code caller codeId s)) tid = get_timesheet s tid"
  by (simp add: delete_invite_code_def Let_def get_timesheet_kv_set get_timesheet_kv_del
      split: option.splits)

lemma get_timesheet_put_users_me:
  "get_timesheet (fst (put_users_me caller updates s)) tid = get_timesheet s tid"
  by (simp add: put_users_me_def Let_def get_timesheet_kv_set split: option.splits)

lemma get_timesheet_put_user:
  "get_timesheet (fst (put_user caller userId updates s)) tid = get_timesheet s tid"
  by (simp add: put_user_def Let_def get_timesheet_kv_set split: option.splits)

lemma get_timesheet_delete_user:
  "get_timesheet (fst (delete_user caller userId s)) tid = get_timesheet s tid"
  by (simp add: delete_user_def Let_def get_timesheet_kv_set get_timesheet_kv_del
      split: option.splits)

lemma get_timesheet_post_projects:
  "get_timesheet (fst (post_projects e caller body s)) tid = get_timesheet s tid"
  by (simp add: post_projects_def Let_def get_timesheet_kv_set split: option.splits)

lemma get_timesheet_get_projects:
  "get_timesheet (fst (get_projects caller s)) tid = get_timesheet s tid"
  by (simp add: get_projects_def Let_def split: option.splits)

lemma get_timesheet_put_project:
  "get_timesheet (fst (put_project caller projectId updates s)) tid = get_timesheet s tid"
  by (simp add: put_project_def Let_def get_timesheet_kv_set split: option.splits)

lemma get_timesheet_delete_project:
  "get_timesheet (fst (delete_project caller projectId s)) tid = get_timesheet s tid"
  by (simp add: delete_project_def Let_def get_timesheet_kv_set get_timesheet_kv_del
      split: option.splits)

lemma get_timesheet_test_database:
  "get_timesheet (fst (test_database e s)) tid = get_timesheet s tid"
  by (simp add: test_database_def Let_def get_timesheet_kv_set get_timesheet_kv_del)

lemma get_timesheet_post_timesheets:
  "get_timesheet s (''timesheet_'' @ gen_suffix e) = None \<Longrightarrow> get_timesheet s tid = Some t \<Longrightarrow>
     get_timesheet (fst (post_timesheets e caller body s)) tid = Some t"
  by (auto simp: post_timesheets_def Let_def get_timesheet_kv_set split: option.splits)

lemma get_timesheet_put_timesheet:
  "get_timesheet s tid = Some t \<Longrightarrow>
     get_timesheet (fst (put_timesheet caller timesheetId updates s)) tid =
       (if caller = Some (ts_userId t) \<and> timesheetId = tid
        then Some ((spread_timesheet t updates)\<lparr>ts_id := tid, ts_userId := ts_userId t\<rparr>)
        else Some t)"
  by (auto simp: put_timesheet_def Let_def get_timesheet_kv_set split: option.splits)

lemma get_timesheet_delete_timesheet:
  "get_timesheet s tid = Some t \<Longrightarrow>
     get_timesheet (fst (delete_timesheet caller timesheetId s)) tid =
       (if caller = Some (ts_userId t) \<and> timesheetId = tid then None else Some t)"
  by (auto simp: delete_timesheet_def Let_def get_timesheet_kv_set get_timesheet_kv_del
      split: option.splits)

lemmas get_timesheet_other_routes =
  get_timesheet_signup get_timesheet_post_invite_codes get_timesheet_toggle_invite_code
  get_timesheet_delete_invite_code get_timesheet_put_users_me get_timesheet_put_user
  get_timesheet_delete_user get_timesheet_post_projects get_timesheet_get_projects
  get_timesheet_put_project get_timesheet_delete_project get_timesheet_test_database

text \<open>
  Claim C8: the \<^verbatim>\<open>userId\<close> of a stored timesheet entry never changes. Take any
  stored entry and any request to a route that writes to the store, with the id that
  \<^verbatim>\<open>POST /timesheets\<close> would generate not in use. After the request the entry, if it
  is still stored, has the \<^verbatim>\<open>userId\<close> it had; and unless the request is the
  owner's \<^verbatim>\<open>PUT\<close> or \<^verbatim>\<open>DELETE\<close> of this very entry, the stored record is the one
  before.
\<close>

theorem timesheet_userId_never_changes:
  assumes "get_timesheet s tid = Some t"
    and "get_timesheet s (''timesheet_'' @ gen_suffix e) = None"
  shows "(\<forall>t'. get_timesheet (fst (handle e req s)) tid = Some t' \<longrightarrow> ts_userId t' = ts_userId t) \<and>
         ((\<exists>updates. req = Put_timesheet (Some (ts_userId t)) tid updates) \<or>
          req = Delete_timesheet (Some (ts_userId t)) tid \<or>
          get_timesheet (fst (handle e req s)) tid = Some t)"
proof (cases req)
  case (Post_timesheets caller body)
  then show ?thesis
    using get_timesheet_post_timesheets [OF assms(2,1)] by simp
next
  case (Put_timesheet caller timesheetId updates)
  then show ?thesis
    using get_timesheet_put_timesheet [OF assms(1)] by auto
next
  case (Delete_timesheet caller timesheetId)
  then show ?thesis
    using get_timesheet_delete_timesheet [OF assms(1)] by auto
qed (simp_all add: get_timesheet_other_routes assms(1))

theorem timesheet_userId_never_changes_witness:
  "get_timesheet (fst (handle demo_env (Put_timesheet (Some ''u2'') ''t1'' demo_take_over) demo_store)) ''t1''
     = Some (demo_timesheet\<lparr>ts_duration := 30\<rparr>) \<and>
   ts_userId (demo_timesheet\<lparr>ts_duration := 30\<rparr>) = ts_userId demo_timesheet \<and>
   get_timesheet (fst (handle demo_env (Post_timesheets (Some ''a1'') demo_post) demo_store)) ''t1''
     = Some demo_timesheet"
proof -
  have t: "get_timesheet demo_store ''t1'' = Some demo_timesheet"
    by (simp add: get_timesheet_def demo_defs kv_defs)
  have f: "get_timesheet demo_store (''timesheet_'' @ gen_suffix demo_env) = None"
    by (simp add: get_timesheet_def demo_defs kv_defs)
  have p: "get_timesheet (fst (handle demo_env (Put_timesheet (Some ''u2'') ''t1'' demo_take_over)
             demo_store)) ''t1'' = Some (demo_timesheet\<lparr>ts_duration := 30\<rparr>)"
    by (simp add: put_timesheet_def Let_def get_timesheet_def spread_timesheet_def override_def
        demo_take_over_def demo_defs kv_defs)
  have u: "ts_userId (demo_timesheet\<lparr>ts_duration := 30\<rparr>) = ts_userId demo_timesheet"
    using timesheet_userId_never_changes
            [OF t f, of "Put_timesheet (Some ''u2'') ''t1'' demo_take_over", THEN conjunct1] p
    by simp
  have q: "get_timesheet (fst (handle demo_env (Post_timesheets (Some ''a1'') demo_post) demo_store)) ''t1''
             = Some demo_timesheet"
    using timesheet_userId_never_changes
            [OF t f, of "Post_timesheets (Some ''a1'') demo_post", THEN conjunct2]
    by simp
  from p u q show ?thesis by simp
qed

subsection \<open>Toggling an invite code\<close>

text \<open>
  Claim C9: for an admin of the code's organization, toggling a stored invite code
  negates \<^verbatim>\<open>isActive\<close>, and toggling again answers with the original record and
  gives back the original store, so the record under the code's key is the original one.
\<close>

theorem toggle_invite_code_twice:
  assumes "get_user s uid = Some currentUser" and "user_role currentUser = ''admin''"
    and "get_invite s cid = Some c" and "ic_orgId c = user_orgId currentUser"
  shows "toggle_invite_code (Some uid) cid s =
           (kv_set (''invite-codes:'' @ cid) (VInvite (c\<lparr>ic_isActive := \<not> ic_isActive c\<rparr>)) s,
            Success_with (VInvite (c\<lparr>ic_isActive := \<not> ic_isActive c\<rparr>))) \<and>
         toggle_invite_code (Some uid) cid (fst (toggle_invite_code (Some uid) cid s)) =
           (s, Success_with (VInvite c))"
proof -
  let ?k = "''invite-codes:'' @ cid"
  let ?c1 = "c\<lparr>ic_isActive := \<not> ic_isActive c\<rparr>"
  let ?s1 = "kv_set ?k (VInvite ?c1) s"
  have first: "toggle_invite_code (Some uid) cid s = (?s1, Success_with (VInvite ?c1))"
    using assms by (simp add: toggle_invite_code_def Let_def)
  have u1: "get_user ?s1 uid = Some currentUser"
    using assms(1) by (simp add: get_user_kv_set)
  have c1: "get_invite ?s1 cid = Some ?c1"
    by (simp add: get_invite_kv_set)
  have restored: "kv_set ?k (VInvite c) ?s1 = s"
    using get_invite_SomeD [OF assms(3)] by (simp only: kv_set_twice kv_set_same)
  have "toggle_invite_code (Some uid) cid ?s1 = (s, Success_with (VInvite c))"
    using u1 c1 assms(2,4) restored by (simp add: toggle_invite_code_def Let_def)
  with first show ?thesis by simp
qed

theorem toggle_invite_code_twice_witness:
  "toggle_invite_code (Some ''a1'') ''c1'' demo_store =
     (kv_set (''invite-codes:'' @ ''c1'')
        (VInvite (demo_code\<lparr>ic_isActive := \<not> ic_isActive demo_code\<rparr>)) demo_store,
      Success_with (VInvite (demo_code\<lparr>ic_isActive := \<not> ic_isActive demo_code\<rparr>))) \<and>
   toggle_invite_code (Some ''a1'') ''c1'' (fst (toggle_invite_code (Some ''a1'') ''c1'' demo_store)) =
     (demo_store, Success_with (VInvite demo_code))"
proof -
  have u: "get_user demo_store ''a1'' = Some demo_admin"
    by (simp add: demo_defs kv_defs)
  have r: "user_role demo_admin = ''admin''"
    by (simp add: demo_defs)
  have c: "get_invite demo_store ''c1'' = Some demo_code"
    by (simp add: demo_defs kv_defs get_invite_def)
  have g: "ic_orgId demo_code = user_orgId demo_admin"
    by (simp add: demo_defs)
  show ?thesis
    by (rule toggle_invite_code_twice [OF u r c g])
qed

subsection \<open>Signup without an organization\<close>

text \<open>
  Claim C10: a signup whose body has neither an invite code nor an organization name
  (absent or empty), once the identity is created, stores a user with orgId null and
  with the role of the body, \<open>staff\<close> when the body has none. No check is made on the
  role: the witness stores \<open>admin\<close>.
\<close>

theorem signup_without_org_stores_requested_role:
  assumes "\<not> truthy_str (sb_inviteCode body)" and "\<not> truthy_str (sb_organizationName body)"
  shows "signup e (Inr uid) body s =
           (kv_set (''users:'' @ uid)
              (VUser \<lparr> user_id = uid, user_email = sb_email body, user_name = sb_name body,
                       user_role = (case sb_role body of None \<Rightarrow> ''staff'' | Some r \<Rightarrow> r),
                       user_orgId = None, user_createdAt = now_iso e \<rparr>) s,
            Signup_ok uid None) \<and>
         get_user (fst (signup e (Inr uid) body s)) uid =
           Some \<lparr> user_id = uid, user_email = sb_email body, user_name = sb_name body,
                  user_role = (case sb_role body of None \<Rightarrow> ''staff'' | Some r \<Rightarrow> r),
                  user_orgId = None, user_createdAt = now_iso e \<rparr>"
  using assms
  by (simp add: signup_def Let_def signup_index_def get_user_kv_set)

theorem signup_without_org_stores_requested_role_witness:
  "get_user (fst (signup demo_env (Inr ''u3'') (demo_signup None (Some ''admin'')) demo_store)) ''u3'' =
     Some \<lparr> user_id = ''u3'', user_email = ''cy@example.org'', user_name = ''Cy'',
            user_role = ''admin'', user_orgId = None,
            user_createdAt = ''2025-02-01T00:00:00.000Z'' \<rparr> \<and>
   get_user (fst (signup demo_env (Inr ''u3'') (demo_signup None None) demo_store)) ''u3'' =
     Some \<lparr> user_id = ''u3'', user_email = ''cy@example.org'', user_name = ''Cy'',
            user_role = ''staff'', user_orgId = None,
            user_createdAt = ''2025-02-01T00:00:00.000Z'' \<rparr>"
proof -
  have i: "\<not> truthy_str (sb_inviteCode (demo_signup None r))" for r
    by (simp add: demo_signup_def)
  have n: "\<not> truthy_str (sb_organizationName (demo_signup None r))" for r
    by (simp add: demo_signup_def)
  have sel: "sb_email (demo_signup None r) = ''cy@example.org''"
    "sb_name (demo_signup None r) = ''Cy''" "sb_role (demo_signup None r) = r"
    "now_iso demo_env = ''2025-02-01T00:00:00.000Z''" for r
    by (simp_all add: demo_signup_def demo_env_def)
  show ?thesis
    using signup_without_org_stores_requested_role [OF i n, THEN conjunct2]
    by (simp add: sel)
qed

end
